theory Spec2Isabelle
  imports Main
begin

section \<open>The schema (database\_setup.py)\<close>

text \<open>
  The four tables of \<^verbatim>\<open>database_setup.py\<close>, one record per row. Column names are
  the source's; a column name that occurs in two tables gets the table's initial in the
  second one (\<open>R_Name\<close>, \<open>Listing_Provider_ID\<close>, \<open>Claim_Food_ID\<close>, ...). A nullable
  \<open>String\<close> column is a \<open>string option\<close>.

  \<open>Expiry_Date\<close> is a \<open>Date\<close> column: a day number, ordered as Python's \<open>date\<close> is.
  Every writer of the column (the insert and the update of \<^verbatim>\<open>app.py\<close>, the loader)
  binds a Python \<open>date\<close>, stored as the text \<open>YYYY-MM-DD\<close>, so the \<open>strptime\<close> the
  cancel handler applies to the stored text gives that date back.
  \<open>Status\<close> is a \<open>String\<close> column under
  \<^verbatim>\<open>CheckConstraint("Status IN ('Pending', 'Completed', 'Cancelled')")\<close>: a datatype of
  the three values.
\<close>

type_synonym date = int
type_synonym datetime = int

datatype status = Pending | Completed | Cancelled

record provider =
  Provider_ID :: int
  Name :: string
  Type :: string
  Address :: "string option"
  City :: string
  Contact :: "string option"

record receiver =
  Receiver_ID :: int
  R_Name :: string
  R_Type :: string
  R_City :: string
  R_Contact :: "string option"
  Pincode :: "string option"

record food_listing =
  Food_ID :: int
  Food_Name :: string
  Quantity :: int
  Expiry_Date :: date
  Listing_Provider_ID :: int
  Provider_Type :: "string option"
  Location :: "string option"
  Food_Type :: "string option"
  Meal_Type :: "string option"

record claim =
  Claim_ID :: int
  Claim_Food_ID :: int
  Claim_Receiver_ID :: int
  Status :: status
  Timestamp :: datetime

record db =
  Providers :: "provider list"
  Receivers :: "receiver list"
  Food_Listings :: "food_listing list"
  Claims :: "claim list"

definition empty_db :: db where
  "empty_db = \<lparr>Providers = [], Receivers = [], Food_Listings = [], Claims = []\<rparr>"

text \<open>
  \<open>primary_key=True\<close> on the four id columns: no two rows of a table share their id.
\<close>

definition primary_keys :: "db \<Rightarrow> bool" where
  "primary_keys s \<longleftrightarrow>
     distinct (map Provider_ID (Providers s)) \<and>
     distinct (map Receiver_ID (Receivers s)) \<and>
     distinct (map Food_ID (Food_Listings s)) \<and>
     distinct (map Claim_ID (Claims s))"

text \<open>\<^verbatim>\<open>CheckConstraint('Quantity > 0')\<close> on \<open>Food_Listings.Quantity\<close>.\<close>

definition quantity_check :: "db \<Rightarrow> bool" where
  "quantity_check s \<longleftrightarrow> list_all (\<lambda>l. 0 < Quantity l) (Food_Listings s)"

section \<open>Connections and SQL statements\<close>

text \<open>
  The schema declares \<^verbatim>\<open>ForeignKey(..., ondelete="CASCADE")\<close> on
  \<open>Food_Listings.Provider_ID\<close>, \<open>Claims.Food_ID\<close> and \<open>Claims.Receiver_ID\<close>. The store
  is SQLite (\<^verbatim>\<open>sqlite:///database/food_wastage.db\<close>), which checks foreign keys and
  runs their \<open>ON DELETE\<close> actions only on a connection that has issued
  \<^verbatim>\<open>PRAGMA foreign_keys = ON\<close>; the setting is a field of the connection here.
  \<^verbatim>\<open>get_engine\<close> of \<^verbatim>\<open>app.py\<close> is \<^verbatim>\<open>create_engine('sqlite:///...')\<close> and nothing
  more, and no file of the repository issues the pragma, so its connections run on
  SQLite's default, which is off.
\<close>

record connection =
  foreign_keys :: bool

definition get_engine :: connection where
  "get_engine = \<lparr>foreign_keys = False\<rparr>"

text \<open>
  \<^verbatim>\<open>UPDATE Claims SET Status = :st WHERE Claim_ID = :cid\<close>
\<close>

definition update_claim_status :: "status \<Rightarrow> int \<Rightarrow> db \<Rightarrow> db" where
  "update_claim_status st cid s =
     s\<lparr>Claims := map (\<lambda>c. if Claim_ID c = cid then c\<lparr>Status := st\<rparr> else c) (Claims s)\<rparr>"

text \<open>
  The Python object bound to \<open>:fid\<close>. The statements are \<^verbatim>\<open>text(...)\<close> with untyped
  parameters, so the object reaches the \<open>sqlite3\<close> driver as it is. The driver binds
  a Python \<open>int\<close> as an INTEGER. A \<open>numpy.int64\<close>, which is what
  \<^verbatim>\<open>df.iloc[0]['Food_ID']\<close> reads from a data frame, is not an \<open>int\<close>; the driver
  takes it through the buffer protocol and binds its eight bytes as a BLOB, and in
  SQLite a BLOB equals no INTEGER. Every other parameter of the pages is a Python
  \<open>int\<close> (a widget's value, \<open>lastrowid\<close>, an element of \<open>tolist()\<close>, a value of the
  dict built by \<open>zip\<close>) and is modelled by the integer itself.
\<close>

datatype py_integer = Py_int int | Numpy_int64 int

text \<open>\<open>column = :param\<close> for an \<open>Integer\<close> column.\<close>

fun equals_bound :: "int \<Rightarrow> py_integer \<Rightarrow> bool" where
  "equals_bound v (Py_int n) \<longleftrightarrow> v = n"
| "equals_bound v (Numpy_int64 n) \<longleftrightarrow> False"

text \<open>
  \<^verbatim>\<open>DELETE FROM Food_Listings WHERE Food_ID = :fid\<close>. With foreign keys enforced,
  each deleted listing takes the claims that reference it with it; a statement that
  deletes no row cascades nothing.
\<close>

definition delete_food_listing :: "connection \<Rightarrow> py_integer \<Rightarrow> db \<Rightarrow> db" where
  "delete_food_listing conn fid s =
     (let gone = map Food_ID (filter (\<lambda>l. equals_bound (Food_ID l) fid) (Food_Listings s))
      in s\<lparr>Food_Listings := filter (\<lambda>l. \<not> equals_bound (Food_ID l) fid) (Food_Listings s),
           Claims :=
             (if foreign_keys conn
              then filter (\<lambda>c. Claim_Food_ID c \<notin> set gone) (Claims s)
              else Claims s)\<rparr>)"

text \<open>
  \<^verbatim>\<open>SELECT Food_ID FROM Claims WHERE Claim_ID = :cid\<close>
\<close>

definition select_claim_food_id :: "int \<Rightarrow> db \<Rightarrow> int list" where
  "select_claim_food_id cid s = map Claim_Food_ID (filter (\<lambda>c. Claim_ID c = cid) (Claims s))"

text \<open>
  \<^verbatim>\<open>SELECT Food_ID, Expiry_Date FROM Food_Listings
  WHERE Food_ID = (SELECT Food_ID FROM Claims WHERE Claim_ID = :cid)\<close>:
  the scalar subquery is the first row's value, and NULL (equal to nothing) when there
  is no row.
\<close>

definition select_food_info :: "int \<Rightarrow> db \<Rightarrow> food_listing list" where
  "select_food_info cid s =
     (case select_claim_food_id cid s of
        [] \<Rightarrow> []
      | fid # _ \<Rightarrow> filter (\<lambda>l. Food_ID l = fid) (Food_Listings s))"

section \<open>The Manage Claims page (app.py)\<close>

text \<open>
  \<open>claims_query\<close> with \<open>:status\<close>: the claims of that status whose receiver row
  exists (the inner \<open>JOIN Receivers\<close>); the \<open>LEFT JOIN Food_Listings\<close> keeps a claim
  whose listing is gone. The page uses the result's \<open>Claim_ID\<close> column for a membership
  test and its emptiness only, so the joined columns and the \<open>ORDER BY\<close> are left out.
\<close>

definition claims_query :: "status \<Rightarrow> db \<Rightarrow> claim list" where
  "claims_query st s =
     filter (\<lambda>c. Status c = st \<and> Claim_Receiver_ID c \<in> set (map Receiver_ID (Receivers s)))
       (Claims s)"

text \<open>What the page shows after a button press, one constructor per message.\<close>

datatype claim_message =
    Claim_completed
  | Claim_cancelled_food_removed
  | Claim_cancelled
  | Claim_cancelled_food_gone
  | Not_a_valid_pending_claim
  | No_pending_claims
  | No_claim_id
  | Claim_error

text \<open>
  The "Mark as Completed" button, with \<open>status_filter = 'Pending'\<close> (the only filter
  under which the page draws the button). The three statements run inside
  \<^verbatim>\<open>with engine.begin() as conn\<close>: an exception (\<open>iloc[0]\<close> on an empty frame) rolls
  the transaction back and the \<open>except\<close> branch reports it.
  \<^verbatim>\<open>food_id = food_id_df.iloc[0]['Food_ID']\<close> is a \<open>numpy.int64\<close>, and it is this
  object that the handler binds to the \<open>DELETE\<close>.
\<close>

definition mark_as_completed :: "connection \<Rightarrow> int \<Rightarrow> db \<Rightarrow> claim_message \<times> db" where
  "mark_as_completed conn claim_id_to_update s =
     (let claims_df = claims_query Pending s in
      if claims_df = [] then (No_pending_claims, s)
      else if claim_id_to_update = 0 then (No_claim_id, s)
      else if claim_id_to_update \<notin> set (map Claim_ID claims_df)
        then (Not_a_valid_pending_claim, s)
      else
        (case select_claim_food_id claim_id_to_update s of
           [] \<Rightarrow> (Claim_error, s)
         | food_id # _ \<Rightarrow>
             (Claim_completed,
              delete_food_listing conn (Numpy_int64 food_id)
                (update_claim_status Completed claim_id_to_update s))))"

text \<open>
  The "Cancel Claim" button; \<open>today\<close> is \<^verbatim>\<open>date.today()\<close>. Here too
  \<^verbatim>\<open>food_id = food_info_df.iloc[0]['Food_ID']\<close> is a \<open>numpy.int64\<close>.
\<close>

definition cancel_claim :: "connection \<Rightarrow> date \<Rightarrow> int \<Rightarrow> db \<Rightarrow> claim_message \<times> db" where
  "cancel_claim conn today claim_id_to_update s =
     (let claims_df = claims_query Pending s in
      if claims_df = [] then (No_pending_claims, s)
      else if claim_id_to_update = 0 then (No_claim_id, s)
      else if claim_id_to_update \<notin> set (map Claim_ID claims_df)
        then (Not_a_valid_pending_claim, s)
      else
        (let food_info_df = select_food_info claim_id_to_update s;
             s1 = update_claim_status Cancelled claim_id_to_update s
         in case food_info_df of
              [] \<Rightarrow> (Claim_cancelled_food_gone, s1)
            | food # _ \<Rightarrow>
                if Expiry_Date food < today
                then (Claim_cancelled_food_removed,
                      delete_food_listing conn (Numpy_int64 (Food_ID food)) s1)
                else (Claim_cancelled, s1)))"

section \<open>The Manage Food Listings page (app.py)\<close>

text \<open>
  \<open>Food_ID\<close> and \<open>Claim_ID\<close> are \<open>Integer\<close> primary keys, SQLite's row ids: an
  \<open>INSERT\<close> that names no id takes one more than the largest id in the table, and 1 in
  an empty table. That is \<^verbatim>\<open>result.lastrowid\<close>.
\<close>

definition lastrowid :: "int list \<Rightarrow> int" where
  "lastrowid ids = (if ids = [] then 1 else Max (set ids) + 1)"

text \<open>
  \<^verbatim>\<open>INSERT INTO Food_Listings (Food_Name, Quantity, Expiry_Date, Provider_ID,
  Provider_Type, Location, Food_Type, Meal_Type) VALUES (...)\<close>; \<open>None\<close> is the
  IntegrityError of a failed \<open>CHECK\<close> or, with foreign keys enforced, of a provider
  that does not exist.
\<close>

definition insert_food_listing ::
  "connection \<Rightarrow> string \<Rightarrow> int \<Rightarrow> date \<Rightarrow> int \<Rightarrow> string \<Rightarrow> string \<Rightarrow> string \<Rightarrow> string \<Rightarrow> db
     \<Rightarrow> (int \<times> db) option" where
  "insert_food_listing conn fn qty exp pid pt loc ft mt s =
     (if \<not> 0 < qty then None
      else if foreign_keys conn \<and> pid \<notin> set (map Provider_ID (Providers s)) then None
      else
        (let new_food_id = lastrowid (map Food_ID (Food_Listings s)) in
         Some (new_food_id,
           s\<lparr>Food_Listings := Food_Listings s @
               [\<lparr>Food_ID = new_food_id, Food_Name = fn, Quantity = qty, Expiry_Date = exp,
                 Listing_Provider_ID = pid, Provider_Type = Some pt, Location = Some loc,
                 Food_Type = Some ft, Meal_Type = Some mt\<rparr>]\<rparr>)))"

text \<open>
  \<^verbatim>\<open>INSERT INTO Claims (Food_ID, Receiver_ID, Status) VALUES (:fid, :rid, 'Pending')\<close>;
  \<open>Timestamp\<close> takes its \<open>server_default\<close>, the time \<open>now\<close> of the insert.
\<close>

definition insert_claim :: "connection \<Rightarrow> int \<Rightarrow> int \<Rightarrow> datetime \<Rightarrow> db \<Rightarrow> db option" where
  "insert_claim conn fid rid now s =
     (if foreign_keys conn \<and>
         (fid \<notin> set (map Food_ID (Food_Listings s)) \<or>
          rid \<notin> set (map Receiver_ID (Receivers s)))
      then None
      else Some (s\<lparr>Claims := Claims s @
        [\<lparr>Claim_ID = lastrowid (map Claim_ID (Claims s)), Claim_Food_ID = fid,
          Claim_Receiver_ID = rid, Status = Pending, Timestamp = now\<rparr>]\<rparr>))"

text \<open>
  \<^verbatim>\<open>UPDATE Food_Listings SET Quantity = :qty, Expiry_Date = :exp WHERE Food_ID = :id\<close>;
  \<open>None\<close> is the IntegrityError of the \<open>CHECK\<close> on a row the statement changes.
\<close>

definition update_food_listing :: "int \<Rightarrow> date \<Rightarrow> int \<Rightarrow> db \<Rightarrow> db option" where
  "update_food_listing qty exp fid s =
     (if filter (\<lambda>l. Food_ID l = fid) (Food_Listings s) \<noteq> [] \<and> \<not> 0 < qty then None
      else Some (s\<lparr>Food_Listings :=
        map (\<lambda>l. if Food_ID l = fid then l\<lparr>Quantity := qty, Expiry_Date := exp\<rparr> else l)
          (Food_Listings s)\<rparr>))"

text \<open>The values of the widgets of \<^verbatim>\<open>add_listing_form\<close> when the form is submitted.\<close>

record listing_form =
  selected_provider_name :: "string option"
  food_name :: string
  quantity :: int
  expiry_date :: date
  food_type :: string
  meal_type :: string

datatype listing_message =
    No_provider_selected
  | Food_name_empty
  | Expiry_in_past
  | Listing_added_claim_created
  | Listing_added_no_receivers
  | Listing_error
  | No_food_id
  | No_listing_found
  | Listing_updated
  | Listing_deleted
  | Uncaught_exception

text \<open>
  The submit handler of \<^verbatim>\<open>add_listing_form\<close>. \<open>provider_map\<close> is the dict the page
  built from its provider query before the submit; \<open>today\<close> is
  \<^verbatim>\<open>datetime.now().date()\<close>. \<^verbatim>\<open>random.choice(xs)\<close> is \<open>xs[k]\<close> for the generator's
  draw \<open>k\<close> below \<open>len(xs)\<close>; the draw is a parameter. Every exception inside
  \<^verbatim>\<open>with engine.begin() as conn\<close> (a missing key, \<open>iloc[0]\<close> on an empty frame, an
  index out of range, an IntegrityError) rolls the transaction back and is reported by
  the \<open>except\<close> branch. Python's \<open>not x\<close> holds of \<open>None\<close> and of the empty string.
\<close>

definition add_listing ::
  "connection \<Rightarrow> date \<Rightarrow> datetime \<Rightarrow> nat \<Rightarrow> (string \<rightharpoonup> int) \<Rightarrow> listing_form \<Rightarrow> db
     \<Rightarrow> listing_message \<times> db" where
  "add_listing conn today now k provider_map form s =
     (if selected_provider_name form = None \<or> selected_provider_name form = Some []
        then (No_provider_selected, s)
      else if food_name form = [] then (Food_name_empty, s)
      else if expiry_date form < today then (Expiry_in_past, s)
      else
        (case provider_map (the (selected_provider_name form)) of
           None \<Rightarrow> (Listing_error, s)
         | Some provider_id \<Rightarrow>
            (case filter (\<lambda>p. Provider_ID p = provider_id) (Providers s) of
               [] \<Rightarrow> (Listing_error, s)
             | provider_details # _ \<Rightarrow>
                (case insert_food_listing conn (food_name form) (quantity form)
                        (expiry_date form) provider_id (Type provider_details)
                        (City provider_details) (food_type form) (meal_type form) s of
                   None \<Rightarrow> (Listing_error, s)
                 | Some (new_food_id, s1) \<Rightarrow>
                    (let receiver_ids = map Receiver_ID (Receivers s1) in
                     if receiver_ids = [] then (Listing_added_no_receivers, s1)
                     else if \<not> k < length receiver_ids then (Listing_error, s)
                     else
                       (case insert_claim conn new_food_id (receiver_ids ! k) now s1 of
                          None \<Rightarrow> (Listing_error, s)
                        | Some s2 \<Rightarrow> (Listing_added_claim_created, s2)))))))"

text \<open>
  The submit handler of \<^verbatim>\<open>update_listing_form\<close>, drawn when \<open>update_id\<close> is
  non-zero and a listing has that id. \<^verbatim>\<open>execute_mutation\<close> runs the update in its own
  transaction, outside any \<open>try\<close>.
\<close>

definition update_listing ::
  "date \<Rightarrow> int \<Rightarrow> int \<Rightarrow> date \<Rightarrow> db \<Rightarrow> listing_message \<times> db" where
  "update_listing today update_id new_quantity new_expiry_date s =
     (if update_id = 0 then (No_food_id, s)
      else if filter (\<lambda>l. Food_ID l = update_id) (Food_Listings s) = []
        then (No_listing_found, s)
      else if new_expiry_date < today then (Expiry_in_past, s)
      else
        (case update_food_listing new_quantity new_expiry_date update_id s of
           None \<Rightarrow> (Uncaught_exception, s)
         | Some s' \<Rightarrow> (Listing_updated, s')))"

text \<open>
  The "Confirm Deletion" button, drawn under the same two conditions; \<open>delete_id\<close> is
  the value of a \<open>number_input\<close>, a Python \<open>int\<close>.
\<close>

definition delete_listing :: "connection \<Rightarrow> int \<Rightarrow> db \<Rightarrow> listing_message \<times> db" where
  "delete_listing conn delete_id s =
     (if delete_id = 0 then (No_food_id, s)
      else if filter (\<lambda>l. Food_ID l = delete_id) (Food_Listings s) = []
        then (No_listing_found, s)
      else (Listing_deleted, delete_food_listing conn (Py_int delete_id) s))"

section \<open>Statements outside the pages\<close>

text \<open>
  \<^verbatim>\<open>DELETE FROM Providers WHERE Provider_ID = :pid\<close>, as the schema of
  \<^verbatim>\<open>database_setup.py\<close> defines it (a provider is a row of the table the schema
  declares; no page of \<^verbatim>\<open>app.py\<close> deletes one): with foreign keys enforced a deleted
  provider takes its listings with it, and each of these its claims.
\<close>

definition delete_provider :: "connection \<Rightarrow> int \<Rightarrow> db \<Rightarrow> db" where
  "delete_provider conn pid s =
     (if foreign_keys conn \<and> filter (\<lambda>p. Provider_ID p = pid) (Providers s) \<noteq> []
      then
        (let dead = map Food_ID (filter (\<lambda>l. Listing_Provider_ID l = pid) (Food_Listings s))
         in s\<lparr>Providers := filter (\<lambda>p. Provider_ID p \<noteq> pid) (Providers s),
              Food_Listings := filter (\<lambda>l. Listing_Provider_ID l \<noteq> pid) (Food_Listings s),
              Claims := filter (\<lambda>c. Claim_Food_ID c \<notin> set dead) (Claims s)\<rparr>)
      else s\<lparr>Providers := filter (\<lambda>p. Provider_ID p \<noteq> pid) (Providers s)\<rparr>)"

text \<open>
  One row appended by the loader (\<^verbatim>\<open>to_sql(..., if_exists='append')\<close> of
  \<^verbatim>\<open>load_data.py\<close>), with the id the CSV gives it. \<open>None\<close> is the IntegrityError of
  a primary key already in use, of the \<open>CHECK\<close>, or of a foreign key when these are
  enforced.
\<close>

datatype row =
    Provider_row provider
  | Receiver_row receiver
  | Listing_row food_listing
  | Claim_row claim

fun insert_row :: "connection \<Rightarrow> row \<Rightarrow> db \<Rightarrow> db option" where
  "insert_row conn (Provider_row p) s =
     (if Provider_ID p \<in> set (map Provider_ID (Providers s)) then None
      else Some (s\<lparr>Providers := Providers s @ [p]\<rparr>))"
| "insert_row conn (Receiver_row r) s =
     (if Receiver_ID r \<in> set (map Receiver_ID (Receivers s)) then None
      else Some (s\<lparr>Receivers := Receivers s @ [r]\<rparr>))"
| "insert_row conn (Listing_row l) s =
     (if Food_ID l \<in> set (map Food_ID (Food_Listings s)) then None
      else if \<not> 0 < Quantity l then None
      else if foreign_keys conn \<and> Listing_Provider_ID l \<notin> set (map Provider_ID (Providers s))
        then None
      else Some (s\<lparr>Food_Listings := Food_Listings s @ [l]\<rparr>))"
| "insert_row conn (Claim_row c) s =
     (if Claim_ID c \<in> set (map Claim_ID (Claims s)) then None
      else if foreign_keys conn \<and>
          (Claim_Food_ID c \<notin> set (map Food_ID (Food_Listings s)) \<or>
           Claim_Receiver_ID c \<notin> set (map Receiver_ID (Receivers s)))
        then None
      else Some (s\<lparr>Claims := Claims s @ [c]\<rparr>))"

text \<open>Rows appended one after the other, none of them refused.\<close>

fun append_rows :: "connection \<Rightarrow> row list \<Rightarrow> db \<Rightarrow> db option" where
  "append_rows conn [] s = Some s"
| "append_rows conn (r # rs) s =
     (case insert_row conn r s of None \<Rightarrow> None | Some s' \<Rightarrow> append_rows conn rs s')"

text \<open>
  The database states the repository's code can produce: the empty tables of
  \<^verbatim>\<open>create_database\<close>, rows appended by the loader, and the five operations of the
  pages, each with any input.
\<close>

inductive reachable :: "db \<Rightarrow> bool" where
  created: "reachable empty_db"
| loaded: "reachable s \<Longrightarrow> insert_row conn r s = Some s' \<Longrightarrow> reachable s'"
| added: "reachable s \<Longrightarrow> reachable (snd (add_listing conn today now k provider_map form s))"
| updated: "reachable s \<Longrightarrow> reachable (snd (update_listing today uid qty exp s))"
| deleted: "reachable s \<Longrightarrow> reachable (snd (delete_listing conn did s))"
| completed: "reachable s \<Longrightarrow> reachable (snd (mark_as_completed conn cid s))"
| cancelled: "reachable s \<Longrightarrow> reachable (snd (cancel_claim conn today cid s))"

section \<open>An example database\<close>

text \<open>
  One provider, two receivers, two listings and seven claims: claims 1 and 2 are both
  on listing 10, claim 3 is on listing 11, claim 4 names a listing that is gone, and
  claim 5 is completed. Claims 6 and 7 name receiver 9, of whom the table has no
  row; claim 6 is on listing 11 and claim 7 names a listing that is gone. The loader
  appends such rows: its connection checks no foreign key.
\<close>

definition provider1 :: provider where
  "provider1 = \<lparr>Provider_ID = 1, Name = ''Corner Cafe'', Type = ''Restaurant'',
     Address = None, City = ''Austin'', Contact = None\<rparr>"

definition receiver1 :: receiver where
  "receiver1 = \<lparr>Receiver_ID = 1, R_Name = ''Food Bank'', R_Type = ''NGO'',
     R_City = ''Austin'', R_Contact = None, Pincode = None\<rparr>"

definition receiver2 :: receiver where
  "receiver2 = \<lparr>Receiver_ID = 2, R_Name = ''Shelter'', R_Type = ''Shelter'',
     R_City = ''Austin'', R_Contact = None, Pincode = None\<rparr>"

definition listing10 :: food_listing where
  "listing10 = \<lparr>Food_ID = 10, Food_Name = ''Bread'', Quantity = 10, Expiry_Date = 100,
     Listing_Provider_ID = 1, Provider_Type = Some ''Restaurant'', Location = Some ''Austin'',
     Food_Type = Some ''Vegetarian'', Meal_Type = Some ''Breakfast''\<rparr>"

definition listing11 :: food_listing where
  "listing11 = \<lparr>Food_ID = 11, Food_Name = ''Soup'', Quantity = 4, Expiry_Date = 100,
     Listing_Provider_ID = 1, Provider_Type = Some ''Restaurant'', Location = Some ''Austin'',
     Food_Type = Some ''Vegan'', Meal_Type = Some ''Dinner''\<rparr>"

definition claim1 :: claim where
  "claim1 = \<lparr>Claim_ID = 1, Claim_Food_ID = 10, Claim_Receiver_ID = 1, Status = Pending,
     Timestamp = 7\<rparr>"

definition claim2 :: claim where
  "claim2 = \<lparr>Claim_ID = 2, Claim_Food_ID = 10, Claim_Receiver_ID = 2, Status = Pending,
     Timestamp = 8\<rparr>"

definition claim3 :: claim where
  "claim3 = \<lparr>Claim_ID = 3, Claim_Food_ID = 11, Claim_Receiver_ID = 1, Status = Pending,
     Timestamp = 9\<rparr>"

definition claim4 :: claim where
  "claim4 = \<lparr>Claim_ID = 4, Claim_Food_ID = 99, Claim_Receiver_ID = 2, Status = Pending,
     Timestamp = 9\<rparr>"

definition claim5 :: claim where
  "claim5 = \<lparr>Claim_ID = 5, Claim_Food_ID = 98, Claim_Receiver_ID = 2, Status = Completed,
     Timestamp = 3\<rparr>"

definition claim6 :: claim where
  "claim6 = \<lparr>Claim_ID = 6, Claim_Food_ID = 11, Claim_Receiver_ID = 9, Status = Pending,
     Timestamp = 9\<rparr>"

definition claim7 :: claim where
  "claim7 = \<lparr>Claim_ID = 7, Claim_Food_ID = 99, Claim_Receiver_ID = 9, Status = Pending,
     Timestamp = 9\<rparr>"

definition example_db :: db where
  "example_db = \<lparr>Providers = [provider1], Receivers = [receiver1, receiver2],
     Food_Listings = [listing10, listing11],
     Claims = [claim1, claim2, claim3, claim4, claim5, claim6, claim7]\<rparr>"

definition enforcing :: connection where
  "enforcing = \<lparr>foreign_keys = True\<rparr>"

definition example_form :: listing_form where
  "example_form = \<lparr>selected_provider_name = Some ''Corner Cafe'', food_name = ''Rice'',
     quantity = 3, expiry_date = 120, food_type = ''Vegan'', meal_type = ''Lunch''\<rparr>"

definition example_provider_map :: "string \<rightharpoonup> int" where
  "example_provider_map = [''Corner Cafe'' \<mapsto> 1]"

section \<open>Lemmas on the statements\<close>

lemmas example_defs =
  example_db_def provider1_def receiver1_def receiver2_def listing10_def listing11_def
  claim1_def claim2_def claim3_def claim4_def claim5_def claim6_def claim7_def
  enforcing_def get_engine_def example_form_def example_provider_map_def

lemma claims_query_mem:
  "c \<in> set (claims_query st s) \<longleftrightarrow>
     c \<in> set (Claims s) \<and> Status c = st \<and>
     Claim_Receiver_ID c \<in> set (map Receiver_ID (Receivers s))"
  by (auto simp: claims_query_def)

lemma filter_key_distinct:
  "distinct (map f xs) \<Longrightarrow> c \<in> set xs \<Longrightarrow> filter (\<lambda>x. f x = f c) xs = [c]"
proof (induction xs)
  case Nil
  then show ?case by simp
next
  case (Cons a xs)
  show ?case
  proof (cases "a = c")
    case True
    from Cons.prems(1) have "f a \<notin> f ` set xs" by simp
    with True have "\<forall>x\<in>set xs. f x \<noteq> f c" by (metis image_eqI)
    then have "filter (\<lambda>x. f x = f c) xs = []"
      by (simp add: filter_empty_conv)
    with True show ?thesis by simp
  next
    case False
    with Cons.prems have "c \<in> set xs" and "f a \<noteq> f c" by auto
    with Cons show ?thesis by simp
  qed
qed

lemma select_claim_food_id_distinct:
  assumes "distinct (map Claim_ID (Claims s))" and "c \<in> set (Claims s)"
  shows "select_claim_food_id (Claim_ID c) s = [Claim_Food_ID c]"
  using filter_key_distinct [OF assms] by (simp add: select_claim_food_id_def)

lemma pending_listed:
  assumes "c \<in> set (Claims s)" and "Status c = Pending"
      and "Claim_Receiver_ID c \<in> set (map Receiver_ID (Receivers s))"
  shows "claims_query Pending s \<noteq> []"
    and "Claim_ID c \<in> set (map Claim_ID (claims_query Pending s))"
proof -
  from assms have "c \<in> set (claims_query Pending s)"
    by (simp add: claims_query_mem)
  then show "claims_query Pending s \<noteq> []" and "Claim_ID c \<in> set (map Claim_ID (claims_query Pending s))"
    by auto
qed

lemma update_only_claim:
  assumes "distinct (map Claim_ID xs)" and "c \<in> set xs"
  shows "map (\<lambda>x. if Claim_ID x = Claim_ID c then x\<lparr>Status := st\<rparr> else x) xs =
         map (\<lambda>x. if x = c then c\<lparr>Status := st\<rparr> else x) xs"
proof (rule map_cong [OF refl])
  fix x assume "x \<in> set xs"
  with assms have "Claim_ID x = Claim_ID c \<longleftrightarrow> x = c"
    by (auto simp: distinct_map inj_on_def)
  then show "(if Claim_ID x = Claim_ID c then x\<lparr>Status := st\<rparr> else x) =
             (if x = c then c\<lparr>Status := st\<rparr> else x)"
    by auto
qed

text \<open>A \<open>DELETE\<close> whose parameter is a \<open>numpy.int64\<close> removes no row.\<close>

lemma delete_food_listing_numpy: "delete_food_listing conn (Numpy_int64 n) s = s"
  by (simp add: delete_food_listing_def)

lemma mark_as_completed_pending:
  assumes "distinct (map Claim_ID (Claims s))"
      and "c \<in> set (Claims s)" and "Status c = Pending"
      and "Claim_Receiver_ID c \<in> set (map Receiver_ID (Receivers s))"
      and "Claim_ID c \<noteq> 0"
  shows "mark_as_completed conn (Claim_ID c) s =
           (Claim_completed,
            s\<lparr>Claims := map (\<lambda>x. if x = c then c\<lparr>Status := Completed\<rparr> else x) (Claims s)\<rparr>)"
  using pending_listed [OF assms(2,3,4)] select_claim_food_id_distinct [OF assms(1,2)] assms(5)
  by (simp add: mark_as_completed_def delete_food_listing_numpy update_claim_status_def
        update_only_claim [OF assms(1,2)])

lemma cancel_claim_pending:
  assumes "distinct (map Claim_ID (Claims s))"
      and "c \<in> set (Claims s)" and "Status c = Pending"
      and "Claim_Receiver_ID c \<in> set (map Receiver_ID (Receivers s))"
      and "Claim_ID c \<noteq> 0"
  shows "cancel_claim conn today (Claim_ID c) s =
           ((case filter (\<lambda>l. Food_ID l = Claim_Food_ID c) (Food_Listings s) of
               [] \<Rightarrow> Claim_cancelled_food_gone
             | food # _ \<Rightarrow>
                 if Expiry_Date food < today then Claim_cancelled_food_removed
                 else Claim_cancelled),
            s\<lparr>Claims := map (\<lambda>x. if x = c then c\<lparr>Status := Cancelled\<rparr> else x) (Claims s)\<rparr>)"
  using pending_listed [OF assms(2,3,4)] select_claim_food_id_distinct [OF assms(1,2)] assms(5)
  by (simp add: cancel_claim_def select_food_info_def Let_def delete_food_listing_numpy
        update_claim_status_def update_only_claim [OF assms(1,2)] split: list.splits)

lemma not_pending_not_listed:
  assumes "distinct (map Claim_ID (Claims s))"
      and "c \<in> set (Claims s)" and "Status c \<noteq> Pending"
  shows "Claim_ID c \<notin> set (map Claim_ID (claims_query Pending s))"
proof
  assume "Claim_ID c \<in> set (map Claim_ID (claims_query Pending s))"
  then obtain x where x: "x \<in> set (claims_query Pending s)" "Claim_ID x = Claim_ID c"
    by auto
  then have "x \<in> set (Claims s)" and "Status x = Pending"
    by (simp_all add: claims_query_mem)
  with assms(1,2) x(2) have "x = c"
    by (auto simp: distinct_map inj_on_def)
  with \<open>Status x = Pending\<close> assms(3) show False by simp
qed

lemma no_receiver_not_listed:
  assumes "distinct (map Claim_ID (Claims s))"
      and "c \<in> set (Claims s)"
      and "Claim_Receiver_ID c \<notin> set (map Receiver_ID (Receivers s))"
  shows "Claim_ID c \<notin> set (map Claim_ID (claims_query Pending s))"
proof
  assume "Claim_ID c \<in> set (map Claim_ID (claims_query Pending s))"
  then obtain x where x: "x \<in> set (claims_query Pending s)" "Claim_ID x = Claim_ID c"
    by auto
  then have "x \<in> set (Claims s)"
    and r: "Claim_Receiver_ID x \<in> set (map Receiver_ID (Receivers s))"
    by (simp_all add: claims_query_mem)
  with assms(1,2) x(2) have "x = c"
    by (auto simp: distinct_map inj_on_def)
  with r assms(3) show False by simp
qed

text \<open>A claim the page does not list is refused by both buttons.\<close>

lemma unlisted_refused:
  assumes "Claim_ID c \<notin> set (map Claim_ID (claims_query Pending s))" and "Claim_ID c \<noteq> 0"
  shows "mark_as_completed conn (Claim_ID c) s =
           (if claims_query Pending s = [] then No_pending_claims
            else Not_a_valid_pending_claim, s)"
    and "cancel_claim conn today (Claim_ID c) s =
           (if claims_query Pending s = [] then No_pending_claims
            else Not_a_valid_pending_claim, s)"
  using assms by (simp_all add: mark_as_completed_def cancel_claim_def)

lemma no_listing_filters:
  assumes "fid \<notin> set (map Food_ID ls)"
  shows "filter (\<lambda>l. Food_ID l \<noteq> fid) ls = ls" and "filter (\<lambda>l. Food_ID l = fid) ls = []"
  using assms unfolding filter_id_conv filter_empty_conv by (metis image_eqI set_map)+

lemma listing_filter:
  assumes "distinct (map Food_ID ls)" and "l \<in> set ls"
  shows "filter (\<lambda>x. Food_ID x = Food_ID l) ls = [l]"
  using filter_key_distinct [OF assms] .

lemma lastrowid_fresh: "lastrowid ids \<notin> set ids"
proof
  assume m: "lastrowid ids \<in> set ids"
  then have "ids \<noteq> []" by auto
  with m have "Max (set ids) + 1 \<in> set ids" by (simp add: lastrowid_def)
  then have "Max (set ids) + 1 \<le> Max (set ids)" by (rule Max_ge [OF finite_set])
  then show False by simp
qed

section \<open>Reachable states\<close>

lemma reachable_append_rows:
  "reachable s \<Longrightarrow> append_rows conn rs s = Some s' \<Longrightarrow> reachable s'"
proof (induction rs arbitrary: s)
  case Nil
  then show ?case by simp
next
  case (Cons r rs)
  from Cons.prems(2) obtain s1 where s1: "insert_row conn r s = Some s1"
    and rest: "append_rows conn rs s1 = Some s'"
    by (auto split: option.splits)
  from Cons.prems(1) s1 have "reachable s1" by (rule reachable.loaded)
  from Cons.IH [OF this rest] show ?case .
qed

lemma example_db_loaded:
  "append_rows get_engine
     [Provider_row provider1, Receiver_row receiver1, Receiver_row receiver2,
      Listing_row listing10, Listing_row listing11, Claim_row claim1, Claim_row claim2,
      Claim_row claim3, Claim_row claim4, Claim_row claim5, Claim_row claim6,
      Claim_row claim7] empty_db = Some example_db"
  by (simp add: example_defs empty_db_def)

lemma reachable_example_db: "reachable example_db"
  by (rule reachable_append_rows [OF reachable.created example_db_loaded])

lemma primary_keys_update_claim_status:
  "primary_keys (update_claim_status st cid s) = primary_keys s"
proof -
  have m: "map Claim_ID (map (\<lambda>c. if Claim_ID c = cid then c\<lparr>Status := st\<rparr> else c) xs) =
        map Claim_ID xs" for xs
    by (induction xs) auto
  show ?thesis
    by (simp add: primary_keys_def update_claim_status_def m del: map_map)
qed

lemma primary_keys_delete_food_listing:
  "primary_keys s \<Longrightarrow> primary_keys (delete_food_listing conn fid s)"
  by (simp add: primary_keys_def delete_food_listing_def Let_def distinct_map_filter)

lemma primary_keys_insert_row:
  "primary_keys s \<Longrightarrow> insert_row conn r s = Some s' \<Longrightarrow> primary_keys s'"
  by (cases r) (auto simp: primary_keys_def split: if_splits)

lemma primary_keys_update_listing:
  "primary_keys s \<Longrightarrow> primary_keys (snd (update_listing today uid qty exp s))"
proof -
  have m: "map Food_ID (map (\<lambda>l. if Food_ID l = uid
          then l\<lparr>Quantity := qty, Expiry_Date := exp\<rparr> else l) xs) = map Food_ID xs" for xs
    by (induction xs) auto
  show "primary_keys s \<Longrightarrow> ?thesis"
    by (auto simp: primary_keys_def update_listing_def update_food_listing_def m
          simp del: map_map split: option.splits if_splits)
qed

lemma primary_keys_add_listing:
  assumes "primary_keys s"
  shows "primary_keys (snd (add_listing conn today now k provider_map form s))"
  using assms lastrowid_fresh [of "map Food_ID (Food_Listings s)"]
    lastrowid_fresh [of "map Claim_ID (Claims s)"]
  by (auto simp: add_listing_def insert_food_listing_def insert_claim_def Let_def
        primary_keys_def split: option.splits list.splits if_splits)

text \<open>The primary keys hold in every reachable state.\<close>

lemma reachable_primary_keys: "reachable s \<Longrightarrow> primary_keys s"
proof (induction rule: reachable.induct)
  case created
  show ?case by (simp add: primary_keys_def empty_db_def)
next
  case (loaded s conn r s')
  then show ?case by (blast intro: primary_keys_insert_row)
next
  case (added s conn today now k provider_map form)
  then show ?case by (simp add: primary_keys_add_listing)
next
  case (updated s today uid qty exp)
  then show ?case by (simp add: primary_keys_update_listing)
next
  case (deleted s conn did)
  then show ?case
    by (simp add: delete_listing_def primary_keys_delete_food_listing)
next
  case (completed s conn cid)
  then show ?case
    by (simp add: mark_as_completed_def Let_def primary_keys_delete_food_listing
          primary_keys_update_claim_status split: list.splits)
next
  case (cancelled s conn today cid)
  then show ?case
    by (simp add: cancel_claim_def Let_def primary_keys_delete_food_listing
          primary_keys_update_claim_status split: list.splits)
qed

section \<open>Cancelling and completing claims\<close>

text \<open>
  What the two buttons do to a Pending claim that the page lists, on every connection:
  the claim's status is set and nothing else changes, whatever the listing's state.
  The \<open>DELETE\<close> of either handler is bound to a \<open>numpy.int64\<close> and removes no row.
\<close>

lemma mark_as_completed_listed:
  assumes "primary_keys s"
      and "c \<in> set (Claims s)" and "Status c = Pending"
      and "Claim_Receiver_ID c \<in> set (map Receiver_ID (Receivers s))"
      and "Claim_ID c \<noteq> 0"
  shows "mark_as_completed conn (Claim_ID c) s =
           (Claim_completed,
            s\<lparr>Claims := map (\<lambda>x. if x = c then c\<lparr>Status := Completed\<rparr> else x) (Claims s)\<rparr>)"
  using assms(1) mark_as_completed_pending [OF _ assms(2-5)]
  by (simp add: primary_keys_def)

lemma cancel_claim_listed:
  assumes "primary_keys s"
      and "c \<in> set (Claims s)" and "Status c = Pending"
      and "Claim_Receiver_ID c \<in> set (map Receiver_ID (Receivers s))"
      and "Claim_ID c \<noteq> 0"
  shows "snd (cancel_claim conn today (Claim_ID c) s) =
           s\<lparr>Claims := map (\<lambda>x. if x = c then c\<lparr>Status := Cancelled\<rparr> else x) (Claims s)\<rparr>"
  using assms(1) cancel_claim_pending [OF _ assms(2-5), of conn today]
  by (simp add: primary_keys_def)

text \<open>
  C1. Complete on a Pending claim should leave the claim Completed, its listing
  absent and the sibling claims on that listing absent. The code at the example
  database, for claim 1 on listing 10 with sibling claim 2: the claim becomes
  Completed and the page reports the listing removed, but the \<open>DELETE\<close> is bound to a
  \<open>numpy.int64\<close> and matches no row, so listing 10 and claim 2 are still stored. This
  is so on the app's connection and on one that enforces foreign keys.
\<close>

theorem complete_keeps_listing:
  "mark_as_completed get_engine (Claim_ID claim1) example_db =
     (Claim_completed,
      example_db\<lparr>Claims :=
        [claim1\<lparr>Status := Completed\<rparr>, claim2, claim3, claim4, claim5, claim6, claim7]\<rparr>) \<and>
   mark_as_completed enforcing (Claim_ID claim1) example_db =
     mark_as_completed get_engine (Claim_ID claim1) example_db \<and>
   claim1 \<in> set (Claims example_db) \<and> Status claim1 = Pending \<and>
   Food_ID listing10 = Claim_Food_ID claim1 \<and>
   listing10 \<in>
     set (Food_Listings (snd (mark_as_completed get_engine (Claim_ID claim1) example_db))) \<and>
   Claim_Food_ID claim2 = Claim_Food_ID claim1 \<and>
   claim2 \<in> set (Claims (snd (mark_as_completed get_engine (Claim_ID claim1) example_db)))"
  by (simp add: example_defs mark_as_completed_def claims_query_def
        select_claim_food_id_def delete_food_listing_def update_claim_status_def)

text \<open>
  C2. Cancel on a Pending claim whose listing expired before today should leave the
  claim Cancelled and the listing deleted. The code at the example database, for
  claim 3 on listing 11 (expiry 100) with today 101: the claim becomes Cancelled and
  the page reports the expired item removed, but the \<open>DELETE\<close> is bound to a
  \<open>numpy.int64\<close> and matches no row, so listing 11 is still stored.
\<close>

theorem cancel_expired_keeps_listing:
  "cancel_claim get_engine 101 (Claim_ID claim3) example_db =
     (Claim_cancelled_food_removed,
      example_db\<lparr>Claims :=
        [claim1, claim2, claim3\<lparr>Status := Cancelled\<rparr>, claim4, claim5, claim6, claim7]\<rparr>) \<and>
   claim3 \<in> set (Claims example_db) \<and> Status claim3 = Pending \<and>
   Food_ID listing11 = Claim_Food_ID claim3 \<and> Expiry_Date listing11 < (101::int) \<and>
   listing11 \<in>
     set (Food_Listings (snd (cancel_claim get_engine 101 (Claim_ID claim3) example_db)))"
  by (simp add: example_defs cancel_claim_def claims_query_def select_food_info_def
        select_claim_food_id_def delete_food_listing_def update_claim_status_def)

text \<open>
  C3, as the code has it. A Pending claim whose listing exists with an expiry date on
  or after today. If the page lists the claim, that is, if the claim's receiver row
  exists, Cancel sets the claim's status to Cancelled and changes nothing else; the
  table of listings is the same, so the listing is present with every field unchanged.
  If the receiver row does not exist, the page does not list the claim and Cancel
  refuses it, leaving the database as it was. Both hold on every connection.

  The counterexample to the claim as stated is claim 6 of the example database, a
  reachable state: it is Pending, its listing 11 has not expired, its receiver has no
  row, and Cancel answers "not a valid pending claim" and leaves it Pending.
\<close>

theorem cancel_claim_listing_not_expired:
  assumes "primary_keys s"
      and "c \<in> set (Claims s)" and "Status c = Pending"
      and "Claim_ID c \<noteq> 0"
      and "l \<in> set (Food_Listings s)" and "Food_ID l = Claim_Food_ID c"
      and "today \<le> Expiry_Date l"
  shows "(Claim_Receiver_ID c \<in> set (map Receiver_ID (Receivers s)) \<longrightarrow>
            cancel_claim conn today (Claim_ID c) s =
              (Claim_cancelled,
               s\<lparr>Claims :=
                 map (\<lambda>x. if x = c then c\<lparr>Status := Cancelled\<rparr> else x) (Claims s)\<rparr>)
            \<and> Food_Listings (snd (cancel_claim conn today (Claim_ID c) s)) = Food_Listings s
            \<and> l \<in> set (Food_Listings (snd (cancel_claim conn today (Claim_ID c) s))))
       \<and> (Claim_Receiver_ID c \<notin> set (map Receiver_ID (Receivers s)) \<longrightarrow>
            cancel_claim conn today (Claim_ID c) s =
              (if claims_query Pending s = [] then No_pending_claims
               else Not_a_valid_pending_claim, s))"
proof -
  from assms(1) have d: "distinct (map Claim_ID (Claims s))"
    and dl: "distinct (map Food_ID (Food_Listings s))"
    by (simp_all add: primary_keys_def)
  have f: "filter (\<lambda>x. Food_ID x = Claim_Food_ID c) (Food_Listings s) = [l]"
    using listing_filter [OF dl assms(5)] assms(6) by simp
  have listed: "cancel_claim conn today (Claim_ID c) s =
           (Claim_cancelled,
            s\<lparr>Claims := map (\<lambda>x. if x = c then c\<lparr>Status := Cancelled\<rparr> else x) (Claims s)\<rparr>)"
    if r: "Claim_Receiver_ID c \<in> set (map Receiver_ID (Receivers s))"
    unfolding cancel_claim_pending [OF d assms(2,3) r assms(4)]
    using assms(7) by (simp add: f)
  have unlisted: "cancel_claim conn today (Claim_ID c) s =
           (if claims_query Pending s = [] then No_pending_claims
            else Not_a_valid_pending_claim, s)"
    if r: "Claim_Receiver_ID c \<notin> set (map Receiver_ID (Receivers s))"
    by (rule unlisted_refused(2) [OF no_receiver_not_listed [OF d assms(2) r] assms(4)])
  from listed unlisted assms(5) show ?thesis by simp
qed

theorem cancel_claim_listing_not_expired_witness:
  "primary_keys example_db \<and> claim3 \<in> set (Claims example_db) \<and> Status claim3 = Pending \<and>
   listing11 \<in> set (Food_Listings example_db) \<and> Food_ID listing11 = Claim_Food_ID claim3 \<and>
   (100::int) \<le> Expiry_Date listing11 \<and>
   cancel_claim get_engine 100 3 example_db =
     (Claim_cancelled,
      example_db\<lparr>Claims :=
        [claim1, claim2, claim3\<lparr>Status := Cancelled\<rparr>, claim4, claim5, claim6, claim7]\<rparr>) \<and>
   claim6 \<in> set (Claims example_db) \<and> Status claim6 = Pending \<and>
   Food_ID listing11 = Claim_Food_ID claim6 \<and>
   cancel_claim get_engine 100 6 example_db = (Not_a_valid_pending_claim, example_db)"
  using cancel_claim_listing_not_expired [of example_db claim3 listing11 100 get_engine]
    cancel_claim_listing_not_expired [of example_db claim6 listing11 100 get_engine]
  by (simp add: example_defs primary_keys_def claims_query_def)

theorem cancel_claim_listing_not_expired_counterexample:
  "reachable example_db \<and> claim6 \<in> set (Claims example_db) \<and> Status claim6 = Pending \<and>
   listing11 \<in> set (Food_Listings example_db) \<and> Food_ID listing11 = Claim_Food_ID claim6 \<and>
   (50::int) \<le> Expiry_Date listing11 \<and>
   cancel_claim get_engine 50 (Claim_ID claim6) example_db =
     (Not_a_valid_pending_claim, example_db)"
  using reachable_example_db
  by (simp add: example_defs cancel_claim_def claims_query_def)

text \<open>
  C9, as the code has it. A Pending claim whose \<open>Food_ID\<close> is the id of no listing. If
  the page lists the claim, that is, if the claim's receiver row exists, Cancel
  succeeds (the message is the one for a listing that no longer exists), sets the
  claim's status to Cancelled and changes nothing else in the database. If the
  receiver row does not exist, Cancel refuses the claim and leaves the database as it
  was. Both hold on every connection.

  The counterexample to the claim as stated is claim 7 of the example database, a
  reachable state: Pending, no listing, no receiver row; Cancel does not succeed.
\<close>

theorem cancel_claim_without_listing:
  assumes "primary_keys s"
      and "c \<in> set (Claims s)" and "Status c = Pending"
      and "Claim_ID c \<noteq> 0"
      and "Claim_Food_ID c \<notin> set (map Food_ID (Food_Listings s))"
  shows "(Claim_Receiver_ID c \<in> set (map Receiver_ID (Receivers s)) \<longrightarrow>
            cancel_claim conn today (Claim_ID c) s =
              (Claim_cancelled_food_gone,
               s\<lparr>Claims :=
                 map (\<lambda>x. if x = c then c\<lparr>Status := Cancelled\<rparr> else x) (Claims s)\<rparr>))
       \<and> (Claim_Receiver_ID c \<notin> set (map Receiver_ID (Receivers s)) \<longrightarrow>
            cancel_claim conn today (Claim_ID c) s =
              (if claims_query Pending s = [] then No_pending_claims
               else Not_a_valid_pending_claim, s))"
proof -
  from assms(1) have d: "distinct (map Claim_ID (Claims s))"
    by (simp add: primary_keys_def)
  have listed: "cancel_claim conn today (Claim_ID c) s =
           (Claim_cancelled_food_gone,
            s\<lparr>Claims := map (\<lambda>x. if x = c then c\<lparr>Status := Cancelled\<rparr> else x) (Claims s)\<rparr>)"
    if r: "Claim_Receiver_ID c \<in> set (map Receiver_ID (Receivers s))"
    unfolding cancel_claim_pending [OF d assms(2,3) r assms(4)]
    by (simp add: no_listing_filters [OF assms(5)])
  have unlisted: "cancel_claim conn today (Claim_ID c) s =
           (if claims_query Pending s = [] then No_pending_claims
            else Not_a_valid_pending_claim, s)"
    if r: "Claim_Receiver_ID c \<notin> set (map Receiver_ID (Receivers s))"
    by (rule unlisted_refused(2) [OF no_receiver_not_listed [OF d assms(2) r] assms(4)])
  from listed unlisted show ?thesis by simp
qed

theorem cancel_claim_without_listing_witness:
  "primary_keys example_db \<and> claim4 \<in> set (Claims example_db) \<and> Status claim4 = Pending \<and>
   Claim_Food_ID claim4 \<notin> set (map Food_ID (Food_Listings example_db)) \<and>
   cancel_claim get_engine 50 4 example_db =
     (Claim_cancelled_food_gone,
      example_db\<lparr>Claims :=
        [claim1, claim2, claim3, claim4\<lparr>Status := Cancelled\<rparr>, claim5, claim6, claim7]\<rparr>) \<and>
   claim7 \<in> set (Claims example_db) \<and> Status claim7 = Pending \<and>
   Claim_Food_ID claim7 \<notin> set (map Food_ID (Food_Listings example_db)) \<and>
   cancel_claim get_engine 50 7 example_db = (Not_a_valid_pending_claim, example_db)"
  using cancel_claim_without_listing [of example_db claim4 get_engine 50]
    cancel_claim_without_listing [of example_db claim7 get_engine 50]
  by (simp add: example_defs primary_keys_def claims_query_def)

theorem cancel_claim_without_listing_counterexample:
  "reachable example_db \<and> claim7 \<in> set (Claims example_db) \<and> Status claim7 = Pending \<and>
   Claim_Food_ID claim7 \<notin> set (map Food_ID (Food_Listings example_db)) \<and>
   cancel_claim get_engine 50 (Claim_ID claim7) example_db =
     (Not_a_valid_pending_claim, example_db)"
  using reachable_example_db
  by (simp add: example_defs cancel_claim_def claims_query_def)

text \<open>
  C10, as the code has it. A Pending claim whose \<open>Food_ID\<close> is the id of no listing. If
  the page lists the claim, that is, if the claim's receiver row exists, Complete
  succeeds, sets the claim's status to Completed, and the \<open>DELETE\<close> removes nothing, so
  no other row changes. If the receiver row does not exist, Complete refuses the claim
  and leaves the database as it was. Both hold on every connection.

  The counterexample to the claim as stated is claim 7 of the example database, a
  reachable state: Pending, no listing, no receiver row; Complete does not succeed.
\<close>

theorem complete_claim_without_listing:
  assumes "primary_keys s"
      and "c \<in> set (Claims s)" and "Status c = Pending"
      and "Claim_ID c \<noteq> 0"
      and "Claim_Food_ID c \<notin> set (map Food_ID (Food_Listings s))"
  shows "(Claim_Receiver_ID c \<in> set (map Receiver_ID (Receivers s)) \<longrightarrow>
            mark_as_completed conn (Claim_ID c) s =
              (Claim_completed,
               s\<lparr>Claims :=
                 map (\<lambda>x. if x = c then c\<lparr>Status := Completed\<rparr> else x) (Claims s)\<rparr>))
       \<and> (Claim_Receiver_ID c \<notin> set (map Receiver_ID (Receivers s)) \<longrightarrow>
            mark_as_completed conn (Claim_ID c) s =
              (if claims_query Pending s = [] then No_pending_claims
               else Not_a_valid_pending_claim, s))"
proof -
  from assms(1) have d: "distinct (map Claim_ID (Claims s))"
    by (simp add: primary_keys_def)
  have listed: "mark_as_completed conn (Claim_ID c) s =
           (Claim_completed,
            s\<lparr>Claims := map (\<lambda>x. if x = c then c\<lparr>Status := Completed\<rparr> else x) (Claims s)\<rparr>)"
    if r: "Claim_Receiver_ID c \<in> set (map Receiver_ID (Receivers s))"
    by (rule mark_as_completed_pending [OF d assms(2,3) r assms(4)])
  have unlisted: "mark_as_completed conn (Claim_ID c) s =
           (if claims_query Pending s = [] then No_pending_claims
            else Not_a_valid_pending_claim, s)"
    if r: "Claim_Receiver_ID c \<notin> set (map Receiver_ID (Receivers s))"
    by (rule unlisted_refused(1) [OF no_receiver_not_listed [OF d assms(2) r] assms(4)])
  from listed unlisted show ?thesis by simp
qed

theorem complete_claim_without_listing_witness:
  "primary_keys example_db \<and> claim4 \<in> set (Claims example_db) \<and> Status claim4 = Pending \<and>
   Claim_Food_ID claim4 \<notin> set (map Food_ID (Food_Listings example_db)) \<and>
   mark_as_completed get_engine 4 example_db =
     (Claim_completed,
      example_db\<lparr>Claims :=
        [claim1, claim2, claim3, claim4\<lparr>Status := Completed\<rparr>, claim5, claim6, claim7]\<rparr>) \<and>
   claim7 \<in> set (Claims example_db) \<and> Status claim7 = Pending \<and>
   Claim_Food_ID claim7 \<notin> set (map Food_ID (Food_Listings example_db)) \<and>
   mark_as_completed get_engine 7 example_db = (Not_a_valid_pending_claim, example_db)"
  using complete_claim_without_listing [of example_db claim4 get_engine]
    complete_claim_without_listing [of example_db claim7 get_engine]
  by (simp add: example_defs primary_keys_def claims_query_def)

theorem complete_claim_without_listing_counterexample:
  "reachable example_db \<and> claim7 \<in> set (Claims example_db) \<and> Status claim7 = Pending \<and>
   Claim_Food_ID claim7 \<notin> set (map Food_ID (Food_Listings example_db)) \<and>
   mark_as_completed get_engine (Claim_ID claim7) example_db =
     (Not_a_valid_pending_claim, example_db)"
  using reachable_example_db
  by (simp add: example_defs mark_as_completed_def claims_query_def)

text \<open>
  C4. A claim whose status is Completed or Cancelled: both Complete and Cancel refuse
  it and leave the database as it was. The page answers "not a valid pending claim",
  or, when no pending claim is listed at all, "no pending claims to manage" (it
  draws no button then). This holds on every connection.
\<close>

theorem finished_claim_rejected:
  assumes "primary_keys s"
      and "c \<in> set (Claims s)"
      and "Status c = Completed \<or> Status c = Cancelled"
      and "Claim_ID c \<noteq> 0"
  shows "mark_as_completed conn (Claim_ID c) s =
           (if claims_query Pending s = [] then No_pending_claims
            else Not_a_valid_pending_claim, s)
       \<and> cancel_claim conn today (Claim_ID c) s =
           (if claims_query Pending s = [] then No_pending_claims
            else Not_a_valid_pending_claim, s)"
proof -
  from assms(1) have d: "distinct (map Claim_ID (Claims s))"
    by (simp add: primary_keys_def)
  from assms(3) have "Status c \<noteq> Pending" by auto
  from not_pending_not_listed [OF d assms(2) this] assms(4)
  show ?thesis
    by (simp add: mark_as_completed_def cancel_claim_def)
qed

theorem finished_claim_rejected_witness:
  "primary_keys example_db \<and> claim5 \<in> set (Claims example_db) \<and> Status claim5 = Completed \<and>
   mark_as_completed get_engine 5 example_db = (Not_a_valid_pending_claim, example_db) \<and>
   cancel_claim get_engine 50 5 example_db = (Not_a_valid_pending_claim, example_db)"
  using finished_claim_rejected [of example_db claim5 get_engine 50]
  by (simp add: example_defs primary_keys_def claims_query_def)

section \<open>Deleting a provider\<close>

text \<open>
  The statement on a connection that enforces foreign keys: the provider, every listing
  it owns and every claim on one of those listings are removed. On a connection that
  does not, only the provider's row is removed.
\<close>

lemma delete_provider_cascade:
  assumes "foreign_keys conn" and "p \<in> set (Providers s)"
      and "s' = delete_provider conn (Provider_ID p) s"
  shows "Provider_ID p \<notin> set (map Provider_ID (Providers s'))
       \<and> Provider_ID p \<notin> set (map Listing_Provider_ID (Food_Listings s'))
       \<and> (\<forall>l\<in>set (Food_Listings s). Listing_Provider_ID l = Provider_ID p \<longrightarrow>
            Food_ID l \<notin> set (map Claim_Food_ID (Claims s')))"
proof -
  from assms(2) have "filter (\<lambda>x. Provider_ID x = Provider_ID p) (Providers s) \<noteq> []"
    by (auto simp: filter_empty_conv)
  with assms(1,3) have s': "s' =
      s\<lparr>Providers := filter (\<lambda>x. Provider_ID x \<noteq> Provider_ID p) (Providers s),
        Food_Listings := filter (\<lambda>l. Listing_Provider_ID l \<noteq> Provider_ID p) (Food_Listings s),
        Claims := filter (\<lambda>c. Claim_Food_ID c \<notin> set (map Food_ID
          (filter (\<lambda>l. Listing_Provider_ID l = Provider_ID p) (Food_Listings s)))) (Claims s)\<rparr>"
    by (simp add: delete_provider_def)
  have a: "Provider_ID p \<notin> set (map Provider_ID (Providers s'))"
    unfolding s' by auto
  have b: "Provider_ID p \<notin> set (map Listing_Provider_ID (Food_Listings s'))"
    unfolding s' by auto
  have c: "Food_ID l \<notin> set (map Claim_Food_ID (Claims s'))"
    if "l \<in> set (Food_Listings s)" and "Listing_Provider_ID l = Provider_ID p" for l
  proof
    assume "Food_ID l \<in> set (map Claim_Food_ID (Claims s'))"
    then obtain x where x: "x \<in> set (Claims s')" and e: "Claim_Food_ID x = Food_ID l"
      by auto
    from that have "Food_ID l \<in> set (map Food_ID
          (filter (\<lambda>l. Listing_Provider_ID l = Provider_ID p) (Food_Listings s)))"
      by auto
    with x e show False unfolding s' by simp
  qed
  from a b c show ?thesis by blast
qed

lemma delete_provider_not_enforced:
  "\<not> foreign_keys conn \<Longrightarrow>
   delete_provider conn pid s =
     s\<lparr>Providers := filter (\<lambda>p. Provider_ID p \<noteq> pid) (Providers s)\<rparr>"
  by (simp add: delete_provider_def)


section \<open>Creating a listing\<close>

lemma add_listing_valid:
  assumes "selected_provider_name form = Some n" and "n \<noteq> []"
      and "food_name form \<noteq> []" and "\<not> expiry_date form < today"
      and "provider_map n = Some pid"
      and "filter (\<lambda>p. Provider_ID p = pid) (Providers s) = pd # rest"
      and "0 < quantity form"
  shows "add_listing conn today now k provider_map form s =
     (let l = \<lparr>Food_ID = lastrowid (map Food_ID (Food_Listings s)),
                Food_Name = food_name form, Quantity = quantity form,
                Expiry_Date = expiry_date form, Listing_Provider_ID = pid,
                Provider_Type = Some (Type pd), Location = Some (City pd),
                Food_Type = Some (food_type form), Meal_Type = Some (meal_type form)\<rparr>;
          s1 = s\<lparr>Food_Listings := Food_Listings s @ [l]\<rparr>
      in if Receivers s = [] then (Listing_added_no_receivers, s1)
         else if k < length (Receivers s)
         then (Listing_added_claim_created,
               s1\<lparr>Claims := Claims s @
                 [\<lparr>Claim_ID = lastrowid (map Claim_ID (Claims s)), Claim_Food_ID = Food_ID l,
                   Claim_Receiver_ID = Receiver_ID (Receivers s ! k), Status = Pending,
                   Timestamp = now\<rparr>]\<rparr>)
         else (Listing_error, s))"
proof -
  from assms(6) have "pd \<in> set (filter (\<lambda>p. Provider_ID p = pid) (Providers s))" by simp
  then have pin: "pid \<in> set (map Provider_ID (Providers s))" by auto
  show ?thesis
    using assms pin
    by (simp add: add_listing_def insert_food_listing_def insert_claim_def Let_def)
qed

lemma add_listing_success:
  assumes "add_listing conn today now k provider_map form s = (msg, s')"
      and "msg = Listing_added_claim_created \<or> msg = Listing_added_no_receivers"
  shows "\<exists>n pid pd rest.
           selected_provider_name form = Some n \<and> n \<noteq> [] \<and> food_name form \<noteq> [] \<and>
           \<not> expiry_date form < today \<and> provider_map n = Some pid \<and>
           filter (\<lambda>p. Provider_ID p = pid) (Providers s) = pd # rest \<and> 0 < quantity form"
  using assms
  by (auto simp: add_listing_def insert_food_listing_def Let_def
        split: if_splits option.splits list.splits prod.splits)


lemma unique_draw:
  assumes "distinct (map Receiver_ID rs)" and "r \<in> set rs"
  shows "\<exists>!j. j < length rs \<and> Receiver_ID (rs ! j) = Receiver_ID r"
proof -
  from assms(2) obtain i where i: "i < length rs" "rs ! i = r"
    by (auto simp: in_set_conv_nth)
  show ?thesis
  proof (rule ex1I [of _ i])
    from i show "i < length rs \<and> Receiver_ID (rs ! i) = Receiver_ID r" by simp
  next
    fix j assume j: "j < length rs \<and> Receiver_ID (rs ! j) = Receiver_ID r"
    with i have "map Receiver_ID rs ! j = map Receiver_ID rs ! i" by simp
    moreover from i j have "j < length (map Receiver_ID rs)" "i < length (map Receiver_ID rs)"
      by simp_all
    ultimately show "j = i"
      using nth_eq_iff_index_eq [OF assms(1)] by blast
  qed
qed

text \<open>
  C5. A create request whose expiry date is before today is refused by one of the
  form's three validation messages (the expiry message when a provider is selected and
  the food name is not empty, as the checks come in that order), and the database is
  returned as it was: no \<open>Food_Listings\<close> row and no \<open>Claims\<close> row is stored.
\<close>

theorem add_listing_past_expiry:
  assumes "expiry_date form < today"
  shows "add_listing conn today now k provider_map form s =
           (if selected_provider_name form = None \<or> selected_provider_name form = Some []
              then No_provider_selected
            else if food_name form = [] then Food_name_empty
            else Expiry_in_past, s)"
  using assms by (simp add: add_listing_def)

theorem add_listing_past_expiry_witness:
  "expiry_date (example_form\<lparr>expiry_date := 49\<rparr>) < (50::int) \<and>
   add_listing get_engine 50 7 0 example_provider_map (example_form\<lparr>expiry_date := 49\<rparr>)
     example_db = (Expiry_in_past, example_db)"
  using add_listing_past_expiry [of "example_form\<lparr>expiry_date := 49\<rparr>" 50 get_engine 7 0
          example_provider_map example_db]
  by (simp add: example_form_def)

text \<open>
  C7. A successful Create appends one listing, with an id no listing had. With no
  receiver in the table, no claim is created. With receivers, exactly one claim is
  appended: it is Pending, has a new id, names the new listing's \<open>Food_ID\<close>, and its
  receiver is the \<open>k\<close>-th row of the table for the generator's draw \<open>k\<close>. The choice is
  uniform in this sense: every existing receiver is picked by exactly one of the
  \<open>length (Receivers s)\<close> draws, which \<open>random.choice\<close> takes with equal probability.
\<close>

theorem add_listing_claim:
  assumes "add_listing conn today now k provider_map form s = (msg, s')"
      and "msg = Listing_added_claim_created \<or> msg = Listing_added_no_receivers"
      and "primary_keys s"
  shows "\<exists>l. Food_Listings s' = Food_Listings s @ [l] \<and>
           Food_ID l \<notin> set (map Food_ID (Food_Listings s)) \<and>
           (Receivers s = [] \<longrightarrow> msg = Listing_added_no_receivers \<and> Claims s' = Claims s) \<and>
           (Receivers s \<noteq> [] \<longrightarrow>
              msg = Listing_added_claim_created \<and> k < length (Receivers s) \<and>
              Claims s' = Claims s @
                [\<lparr>Claim_ID = lastrowid (map Claim_ID (Claims s)), Claim_Food_ID = Food_ID l,
                  Claim_Receiver_ID = Receiver_ID (Receivers s ! k), Status = Pending,
                  Timestamp = now\<rparr>] \<and>
              lastrowid (map Claim_ID (Claims s)) \<notin> set (map Claim_ID (Claims s))) \<and>
           (\<forall>r\<in>set (Receivers s). \<exists>!j. j < length (Receivers s) \<and>
              Claims (snd (add_listing conn today now j provider_map form s)) = Claims s @
                [\<lparr>Claim_ID = lastrowid (map Claim_ID (Claims s)), Claim_Food_ID = Food_ID l,
                  Claim_Receiver_ID = Receiver_ID r, Status = Pending, Timestamp = now\<rparr>])"
proof -
  from add_listing_success [OF assms(1,2)] obtain n pid pd rest where
    v: "selected_provider_name form = Some n" "n \<noteq> []" "food_name form \<noteq> []"
       "\<not> expiry_date form < today" "provider_map n = Some pid"
       "filter (\<lambda>p. Provider_ID p = pid) (Providers s) = pd # rest" "0 < quantity form"
    by blast
  define l where "l = \<lparr>Food_ID = lastrowid (map Food_ID (Food_Listings s)),
                Food_Name = food_name form, Quantity = quantity form,
                Expiry_Date = expiry_date form, Listing_Provider_ID = pid,
                Provider_Type = Some (Type pd), Location = Some (City pd),
                Food_Type = Some (food_type form), Meal_Type = Some (meal_type form)\<rparr>"
  define new_claim where "new_claim rid = \<lparr>Claim_ID = lastrowid (map Claim_ID (Claims s)),
      Claim_Food_ID = Food_ID l, Claim_Receiver_ID = rid, Status = Pending,
      Timestamp = now\<rparr>" for rid
  have run: "add_listing conn today now j provider_map form s =
      (if Receivers s = [] then (Listing_added_no_receivers, s\<lparr>Food_Listings := Food_Listings s @ [l]\<rparr>)
       else if j < length (Receivers s)
       then (Listing_added_claim_created,
             s\<lparr>Food_Listings := Food_Listings s @ [l],
               Claims := Claims s @ [new_claim (Receiver_ID (Receivers s ! j))]\<rparr>)
       else (Listing_error, s))" for j
    unfolding add_listing_valid [where provider_map = provider_map and form = form, OF v]
      l_def new_claim_def
    by (simp add: Let_def)
  have fid: "Food_ID l = lastrowid (map Food_ID (Food_Listings s))"
    by (simp add: l_def)
  have fresh: "Food_ID l \<notin> set (map Food_ID (Food_Listings s))"
    unfolding fid by (rule lastrowid_fresh)
  from assms(1,2) have ls: "Food_Listings s' = Food_Listings s @ [l]"
    unfolding run by (auto split: if_splits)
  have none: "msg = Listing_added_no_receivers \<and> Claims s' = Claims s" if "Receivers s = []"
    using assms(1) that unfolding run by auto
  have some: "msg = Listing_added_claim_created \<and> k < length (Receivers s) \<and>
      Claims s' = Claims s @ [new_claim (Receiver_ID (Receivers s ! k))]"
    if "Receivers s \<noteq> []"
    using assms(1,2) that unfolding run by (auto split: if_splits)
  have uni: "\<exists>!j. j < length (Receivers s) \<and>
      Claims (snd (add_listing conn today now j provider_map form s)) =
        Claims s @ [new_claim (Receiver_ID r)]"
    if r: "r \<in> set (Receivers s)" for r
  proof -
    from assms(3) have d: "distinct (map Receiver_ID (Receivers s))"
      by (simp add: primary_keys_def)
    from r have ne: "Receivers s \<noteq> []" by auto
    have "(j < length (Receivers s) \<and>
           Claims (snd (add_listing conn today now j provider_map form s)) =
             Claims s @ [new_claim (Receiver_ID r)]) \<longleftrightarrow>
          (j < length (Receivers s) \<and> Receiver_ID (Receivers s ! j) = Receiver_ID r)" for j
      using ne unfolding run by (auto simp: new_claim_def)
    with unique_draw [OF d r] show ?thesis by simp
  qed
  from fresh ls none some uni lastrowid_fresh [of "map Claim_ID (Claims s)"]
  show ?thesis
    unfolding new_claim_def by (intro exI [of _ l]) blast
qed

theorem add_listing_claim_witness:
  "primary_keys example_db \<and>
   add_listing get_engine 50 7 1 example_provider_map example_form example_db =
    (Listing_added_claim_created,
     example_db\<lparr>Food_Listings := [listing10, listing11,
         \<lparr>Food_ID = 12, Food_Name = ''Rice'', Quantity = 3, Expiry_Date = 120,
           Listing_Provider_ID = 1, Provider_Type = Some ''Restaurant'',
           Location = Some ''Austin'', Food_Type = Some ''Vegan'', Meal_Type = Some ''Lunch''\<rparr>],
       Claims := [claim1, claim2, claim3, claim4, claim5, claim6, claim7,
         \<lparr>Claim_ID = 8, Claim_Food_ID = 12, Claim_Receiver_ID = 2, Status = Pending,
           Timestamp = 7\<rparr>]\<rparr>) \<and>
   add_listing get_engine 50 7 1 example_provider_map example_form
     (example_db\<lparr>Receivers := []\<rparr>) =
    (Listing_added_no_receivers,
     example_db\<lparr>Receivers := [], Food_Listings := [listing10, listing11,
         \<lparr>Food_ID = 12, Food_Name = ''Rice'', Quantity = 3, Expiry_Date = 120,
           Listing_Provider_ID = 1, Provider_Type = Some ''Restaurant'',
           Location = Some ''Austin'', Food_Type = Some ''Vegan'', Meal_Type = Some ''Lunch''\<rparr>]\<rparr>)"
proof -
  have pk: "primary_keys example_db"
    by (simp add: example_defs primary_keys_def)
  have run: "add_listing get_engine 50 7 1 example_provider_map example_form example_db =
    (Listing_added_claim_created,
     example_db\<lparr>Food_Listings := [listing10, listing11,
         \<lparr>Food_ID = 12, Food_Name = ''Rice'', Quantity = 3, Expiry_Date = 120,
           Listing_Provider_ID = 1, Provider_Type = Some ''Restaurant'',
           Location = Some ''Austin'', Food_Type = Some ''Vegan'', Meal_Type = Some ''Lunch''\<rparr>],
       Claims := [claim1, claim2, claim3, claim4, claim5, claim6, claim7,
         \<lparr>Claim_ID = 8, Claim_Food_ID = 12, Claim_Receiver_ID = 2, Status = Pending,
           Timestamp = 7\<rparr>]\<rparr>)"
    by (simp add: example_defs add_listing_def insert_food_listing_def insert_claim_def
          lastrowid_def)
  have run0: "add_listing get_engine 50 7 1 example_provider_map example_form
     (example_db\<lparr>Receivers := []\<rparr>) =
    (Listing_added_no_receivers,
     example_db\<lparr>Receivers := [], Food_Listings := [listing10, listing11,
         \<lparr>Food_ID = 12, Food_Name = ''Rice'', Quantity = 3, Expiry_Date = 120,
           Listing_Provider_ID = 1, Provider_Type = Some ''Restaurant'',
           Location = Some ''Austin'', Food_Type = Some ''Vegan'', Meal_Type = Some ''Lunch''\<rparr>]\<rparr>)"
    by (simp add: example_defs add_listing_def insert_food_listing_def insert_claim_def
          lastrowid_def)
  from add_listing_claim [OF run _ pk] pk run run0 show ?thesis by simp
qed

section \<open>The quantity invariant\<close>

lemma quantity_check_update_claim_status:
  "quantity_check (update_claim_status st cid s) = quantity_check s"
  by (simp add: quantity_check_def update_claim_status_def)

lemma quantity_check_delete_food_listing:
  "quantity_check s \<Longrightarrow> quantity_check (delete_food_listing conn fid s)"
  by (simp add: quantity_check_def delete_food_listing_def Let_def list_all_iff)

lemma quantity_check_mark_as_completed:
  "quantity_check s \<Longrightarrow> quantity_check (snd (mark_as_completed conn cid s))"
  by (simp add: mark_as_completed_def Let_def quantity_check_delete_food_listing
        quantity_check_update_claim_status split: list.splits)

lemma quantity_check_cancel_claim:
  "quantity_check s \<Longrightarrow> quantity_check (snd (cancel_claim conn today cid s))"
  by (simp add: cancel_claim_def Let_def quantity_check_delete_food_listing
        quantity_check_update_claim_status split: list.splits)

lemma quantity_check_delete_listing:
  "quantity_check s \<Longrightarrow> quantity_check (snd (delete_listing conn did s))"
  by (simp add: delete_listing_def quantity_check_delete_food_listing)

lemma quantity_check_update_food_listing:
  assumes "quantity_check s" and "update_food_listing qty exp fid s = Some s'"
  shows "quantity_check s'"
proof (cases "filter (\<lambda>l. Food_ID l = fid) (Food_Listings s) = []")
  case True
  then have "\<forall>l\<in>set (Food_Listings s). Food_ID l \<noteq> fid"
    by (simp add: filter_empty_conv)
  then have "map (\<lambda>l. if Food_ID l = fid then l\<lparr>Quantity := qty, Expiry_Date := exp\<rparr> else l)
               (Food_Listings s) = Food_Listings s"
    by (simp add: map_idI)
  with assms True show ?thesis
    by (auto simp: update_food_listing_def quantity_check_def)
next
  case False
  with assms(2) have "0 < qty"
    and "s' = s\<lparr>Food_Listings :=
        map (\<lambda>l. if Food_ID l = fid then l\<lparr>Quantity := qty, Expiry_Date := exp\<rparr> else l)
          (Food_Listings s)\<rparr>"
    by (auto simp: update_food_listing_def split: if_splits)
  with assms(1) show ?thesis
    by (auto simp: quantity_check_def list_all_iff)
qed

lemma quantity_check_update_listing:
  "quantity_check s \<Longrightarrow> quantity_check (snd (update_listing today uid qty exp s))"
  by (auto simp: update_listing_def dest: quantity_check_update_food_listing
        split: option.splits)

lemma quantity_check_insert_food_listing:
  assumes "quantity_check s"
      and "insert_food_listing conn fn qty exp pid pt loc ft mt s = Some (fid, s')"
  shows "quantity_check s'"
  using assms
  by (auto simp: insert_food_listing_def quantity_check_def Let_def split: if_splits)

lemma quantity_check_insert_claim:
  "quantity_check s \<Longrightarrow> insert_claim conn fid rid now s = Some s' \<Longrightarrow> quantity_check s'"
  by (auto simp: insert_claim_def quantity_check_def split: if_splits)

lemma quantity_check_add_listing:
  assumes "quantity_check s"
  shows "quantity_check (snd (add_listing conn today now k provider_map form s))"
proof -
  have *: "quantity_check s2"
    if "insert_food_listing conn fn qty exp pid pt loc ft mt s = Some (fid, s1)"
      and "insert_claim conn fid rid now s1 = Some s2" for fn qty exp pid pt loc ft mt fid s1 rid s2
    using quantity_check_insert_claim [OF quantity_check_insert_food_listing [OF assms that(1)] that(2)] .
  show ?thesis
    using assms
    by (auto simp: add_listing_def Let_def
          dest: quantity_check_insert_food_listing [OF assms] *
          split: option.splits list.splits prod.splits)
qed

lemma quantity_check_insert_row:
  "quantity_check s \<Longrightarrow> insert_row conn r s = Some s' \<Longrightarrow> quantity_check s'"
  by (cases r) (auto simp: quantity_check_def split: if_splits)

lemma reachable_quantity_check: "reachable s \<Longrightarrow> quantity_check s"
proof (induction rule: reachable.induct)
  case created
  show ?case by (simp add: quantity_check_def empty_db_def)
next
  case (loaded s conn r s')
  then show ?case by (blast intro: quantity_check_insert_row)
next
  case (added s conn today now k provider_map form)
  then show ?case by (simp add: quantity_check_add_listing)
next
  case (updated s today uid qty exp)
  then show ?case by (simp add: quantity_check_update_listing)
next
  case (deleted s conn did)
  then show ?case by (simp add: quantity_check_delete_listing)
next
  case (completed s conn cid)
  then show ?case by (simp add: quantity_check_mark_as_completed)
next
  case (cancelled s conn today cid)
  then show ?case by (simp add: quantity_check_cancel_claim)
qed

text \<open>
  C6. In every reachable database state every \<open>Food_Listings\<close> row has a quantity above
  0, and each of Create, Update, Delete, Complete and Cancel, on any input and any
  connection, keeps that true.
\<close>

theorem quantity_positive:
  "(reachable s \<longrightarrow> (\<forall>l\<in>set (Food_Listings s). 0 < Quantity l)) \<and>
   ((\<forall>l\<in>set (Food_Listings s). 0 < Quantity l) \<longrightarrow>
      (\<forall>l\<in>set (Food_Listings (snd (add_listing conn today now k provider_map form s))).
         0 < Quantity l) \<and>
      (\<forall>l\<in>set (Food_Listings (snd (update_listing today uid qty exp s))). 0 < Quantity l) \<and>
      (\<forall>l\<in>set (Food_Listings (snd (delete_listing conn did s))). 0 < Quantity l) \<and>
      (\<forall>l\<in>set (Food_Listings (snd (mark_as_completed conn cid s))). 0 < Quantity l) \<and>
      (\<forall>l\<in>set (Food_Listings (snd (cancel_claim conn today cid s))). 0 < Quantity l))"
  using reachable_quantity_check [of s]
    quantity_check_add_listing [of s conn today now k provider_map form]
    quantity_check_update_listing [of s today uid qty exp]
    quantity_check_delete_listing [of s conn did]
    quantity_check_mark_as_completed [of s conn cid]
    quantity_check_cancel_claim [of s conn today cid]
  unfolding quantity_check_def list_all_iff by blast

theorem quantity_positive_witness:
  "reachable example_db \<and> quantity_check example_db \<and>
   quantity_check
     (snd (add_listing get_engine 50 7 1 example_provider_map example_form example_db)) \<and>
   quantity_check (snd (update_listing 50 10 2 60 example_db)) \<and>
   quantity_check (snd (delete_listing get_engine 10 example_db)) \<and>
   quantity_check (snd (mark_as_completed get_engine 1 example_db)) \<and>
   quantity_check (snd (cancel_claim get_engine 50 1 example_db)) \<and>
   update_listing 50 10 0 60 example_db = (Uncaught_exception, example_db) \<and>
   map Quantity (Food_Listings (snd (update_listing 50 10 2 60 example_db))) = [2, 4]"
proof -
  have q: "\<forall>l\<in>set (Food_Listings example_db). 0 < Quantity l"
    by (simp add: example_defs)
  have u: "update_listing 50 10 0 60 example_db = (Uncaught_exception, example_db)"
    "map Quantity (Food_Listings (snd (update_listing 50 10 2 60 example_db))) = [2, 4]"
    by (simp_all add: example_defs update_listing_def update_food_listing_def)
  from quantity_positive [where s = example_db and conn = get_engine and today = 50
         and now = 7 and k = 1 and provider_map = example_provider_map
         and form = example_form and uid = 10 and qty = 2 and exp = 60 and did = 10
         and cid = 1] reachable_example_db q u
  show ?thesis
    unfolding quantity_check_def list_all_iff by blast
qed

end
